theory Spec2Isabelle
  imports Main
begin

section \<open>Faults, typed errors, causes and exits\<close>

text \<open>
  A native fault is whatever a JavaScript call throws. The program never inspects it
  (\<^verbatim>\<open>cause: Schema.Defect\<close>), so it is kept as an opaque text.
\<close>

type_synonym fault = string

text \<open>
  \<^verbatim>\<open>class SqlError extends Schema.TaggedError<SqlError>()("SqlError", { cause: Schema.Defect })\<close>:
  one tag, one field.
\<close>

datatype SqlError = SqlError (cause: fault)

type_synonym FiberId = nat

text \<open>
  Modelled from the spec: the types \<^verbatim>\<open>Cause\<close> and \<^verbatim>\<open>Exit\<close> are imported from the
  effect package, which is not among the sources. An outcome is a success or a failure;
  a failure carries a cause, built from typed failures, untyped defects and
  cancellations (interruptions); a cancelled task ends with a failure whose cause holds
  interruptions only.
\<close>

datatype 'e Cause =
    Empty
  | Fail 'e
  | Die fault
  | Interrupt FiberId
  | Sequential "'e Cause" "'e Cause"
  | Parallel "'e Cause" "'e Cause"

datatype ('e, 'a) Exit = Success 'a | Failure "'e Cause"

fun isSuccess :: "('e, 'a) Exit \<Rightarrow> bool" where
  "isSuccess (Success a) = True"
| "isSuccess (Failure c) = False"

text \<open>
  Modelled from the spec: \<^verbatim>\<open>Cause.isInterruptedOnly\<close> (effect package), "solely due to
  cancellation": no typed failure and no defect anywhere in the cause.
\<close>

fun isInterruptedOnly :: "'e Cause \<Rightarrow> bool" where
  "isInterruptedOnly Empty = True"
| "isInterruptedOnly (Fail e) = False"
| "isInterruptedOnly (Die d) = False"
| "isInterruptedOnly (Interrupt i) = True"
| "isInterruptedOnly (Sequential l r) = (isInterruptedOnly l \<and> isInterruptedOnly r)"
| "isInterruptedOnly (Parallel l r) = (isInterruptedOnly l \<and> isInterruptedOnly r)"

section \<open>Synchronous native calls and effects\<close>

text \<open>
  A synchronous JavaScript computation against the mutable database object: it returns
  a value or throws a fault, and leaves the object in some state either way.
\<close>

type_synonym ('s, 'a) native = "'s \<Rightarrow> (fault + 'a) \<times> 's"

definition nreturn :: "'a \<Rightarrow> ('s, 'a) native" where
  "nreturn a s = (Inr a, s)"

text \<open>Statement sequencing: a throw in the first statement skips the rest.\<close>

definition nbind :: "('s, 'a) native \<Rightarrow> ('a \<Rightarrow> ('s, 'b) native) \<Rightarrow> ('s, 'b) native" where
  "nbind m k s = (case m s of (Inl x, s') \<Rightarrow> (Inl x, s') | (Inr a, s') \<Rightarrow> k a s')"

text \<open>
  A tracing span as the collector sees it: its name, its attributes, and whether the
  wrapped computation succeeded.
\<close>

record Span =
  spanName :: string
  attributes :: "(string \<times> string) list"
  spanOk :: bool

text \<open>
  What happens to the connection, in the order it happens: \<^verbatim>\<open>new Sqlite\<close> gave it, an
  operation was issued against it, \<^verbatim>\<open>db.close()\<close> ran.
\<close>

datatype LifeEvent = Opened | Used | Closed

text \<open>
  The world an effect runs in: the state of the database object, the spans recorded so
  far, and the journal of the connection.
\<close>

record 's World =
  dbState :: 's
  spans :: "Span list"
  journal :: "LifeEvent list"

type_synonym ('s, 'e, 'a) Effect = "'s World \<Rightarrow> ('e, 'a) Exit \<times> 's World"

text \<open>
  \<^verbatim>\<open>Effect.try({ try, catch })\<close>: runs \<^verbatim>\<open>try\<close> synchronously; a thrown fault is passed to
  \<^verbatim>\<open>catch\<close> and becomes a typed failure.
\<close>

definition Effect_try :: "('s, 'a) native \<Rightarrow> (fault \<Rightarrow> 'e) \<Rightarrow> ('s, 'e, 'a) Effect" where
  "Effect_try try catch w =
     (case try (dbState w) of
        (Inl x, s') \<Rightarrow> (Failure (Fail (catch x)), w\<lparr>dbState := s'\<rparr>)
      | (Inr a, s') \<Rightarrow> (Success a, w\<lparr>dbState := s'\<rparr>))"

text \<open>
  Modelled from the spec: \<^verbatim>\<open>Effect.withSpan(name, { attributes })\<close> (effect package)
  attaches a tracing span scoped to the call; the span is descriptive metadata handed
  to the collector.
\<close>

definition Effect_withSpan ::
  "string \<Rightarrow> (string \<times> string) list \<Rightarrow> ('s, 'e, 'a) Effect \<Rightarrow> ('s, 'e, 'a) Effect" where
  "Effect_withSpan name attrs eff w =
     (case eff w of
        (ex, w') \<Rightarrow>
          (ex, w'\<lparr>spans := spans w' @ [\<lparr>spanName = name, attributes = attrs, spanOk = isSuccess ex\<rparr>]\<rparr>))"

section \<open>The database driver\<close>

text \<open>
  Rows are loosely typed records (column name to value); parameters are positional
  values.
\<close>

datatype SqlValue = Null | Integer int | Text string

type_synonym Row = "(string \<times> SqlValue) list"

text \<open>
  A JavaScript iterator, given by what its successive \<^verbatim>\<open>next()\<close> calls do: report the
  end, hand over a row, or throw.
\<close>

datatype 'r Iterator = IterDone | IterYield 'r "'r Iterator" | IterThrow fault

text \<open>
  The better-sqlite3 objects the program calls, taken as parameters: a prepared
  statement with its \<^verbatim>\<open>reader\<close> flag and its \<^verbatim>\<open>all\<close>, \<^verbatim>\<open>run\<close> and \<^verbatim>\<open>iterate\<close> methods
  (\<^verbatim>\<open>all\<close> may be nullish for the \<^verbatim>\<open>??\<close> of the source), and a database with
  \<^verbatim>\<open>prepare\<close>.
\<close>

record 's Statement =
  reader :: bool
  all_rows :: "SqlValue list \<Rightarrow> ('s, Row list option) native"
  run :: "SqlValue list \<Rightarrow> ('s, unit) native"
  iterate :: "SqlValue list \<Rightarrow> ('s, Row Iterator) native"

record 's Database =
  prepare :: "string \<Rightarrow> ('s, 's Statement) native"
  exec :: "string \<Rightarrow> ('s, unit) native"

text \<open>
  The module itself: what \<^verbatim>\<open>new Sqlite(filename)\<close> does (throw, or give a database in
  its initial state) and the methods of the object it gives.
\<close>

record 's Driver =
  newSqlite :: "string \<Rightarrow> fault + 's"
  methods :: "'s Database"

section \<open>SqlClient\<close>

text \<open>
  \<^verbatim>\<open>use = Effect.fn("SqlClient.use")((f) => Effect.try({ try: () => f(db), catch: (cause) => new SqlError({ cause }) }))\<close>
\<close>

definition use :: "'s Database \<Rightarrow> ('s Database \<Rightarrow> ('s, 'a) native) \<Rightarrow> ('s, SqlError, 'a) Effect" where
  "use db f = Effect_withSpan ''SqlClient.use'' [] (Effect_try (f db) (\<lambda>cause. SqlError cause))"

text \<open>The callback \<^verbatim>\<open>query\<close> hands to \<^verbatim>\<open>use\<close>.\<close>

definition query_body :: "string \<Rightarrow> SqlValue list \<Rightarrow> 's Database \<Rightarrow> ('s, Row list) native" where
  "query_body sql params db =
     nbind (prepare db sql) (\<lambda>stmt.
       if reader stmt
       then nbind (all_rows stmt params) (\<lambda>r. nreturn (case r of Some rows \<Rightarrow> rows | None \<Rightarrow> []))
       else nbind (run stmt params) (\<lambda>_. nreturn []))"

definition query :: "'s Database \<Rightarrow> string \<Rightarrow> SqlValue list \<Rightarrow> ('s, SqlError, Row list) Effect" where
  "query db sql params =
     Effect_withSpan ''SqlClient.query'' [(''sql'', sql)] (use db (query_body sql params))"

subsection \<open>Streams\<close>

text \<open>
  What a consumer of a stream sees, pull by pull: an element and the rest, the end, or
  a halt with a cause.
\<close>

datatype ('e, 'a) Pull = Done | Emit 'a "('e, 'a) Pull" | Halt "'e Cause"

type_synonym ('s, 'e, 'a) Stream = "'s World \<Rightarrow> ('e, 'a) Pull \<times> 's World"

text \<open>
  \<^verbatim>\<open>Stream.fromIterable\<close> (effect package) has no typed error (\<^verbatim>\<open>Stream<A, never>\<close>). On
  demand it fills a chunk: it calls \<^verbatim>\<open>next()\<close> until the chunk holds 4096 elements, the
  default chunk size, or the iterator is done, and hands the chunk over. A fault thrown
  by \<^verbatim>\<open>next()\<close> is a defect of the stream, and the elements already in the chunk being
  filled are not handed over.
\<close>

definition DefaultChunkSize :: nat where
  "DefaultChunkSize = 4096"

fun emit_chunk :: "'a list \<Rightarrow> ('e, 'a) Pull \<Rightarrow> ('e, 'a) Pull" where
  "emit_chunk [] p = p"
| "emit_chunk (a # as) p = Emit a (emit_chunk as p)"

fun fromIterator_chunks :: "nat \<Rightarrow> 'a list \<Rightarrow> 'a Iterator \<Rightarrow> ('e, 'a) Pull" where
  "fromIterator_chunks maxChunkSize builder IterDone = emit_chunk builder Done"
| "fromIterator_chunks maxChunkSize builder (IterThrow x) = Halt (Die x)"
| "fromIterator_chunks maxChunkSize builder (IterYield a it) =
     (if maxChunkSize \<le> Suc (length builder)
      then emit_chunk (builder @ [a]) (fromIterator_chunks maxChunkSize [] it)
      else fromIterator_chunks maxChunkSize (builder @ [a]) it)"

definition fromIterable_pull :: "'a Iterator \<Rightarrow> ('e, 'a) Pull" where
  "fromIterable_pull it = fromIterator_chunks DefaultChunkSize [] it"

definition Stream_fromIterable :: "'a Iterator \<Rightarrow> ('s, 'e, 'a) Stream" where
  "Stream_fromIterable it w = (fromIterable_pull it, w)"

text \<open>
  \<^verbatim>\<open>Stream.unwrap\<close>: the effect runs when the stream is consumed; its failure is the
  failure of the stream, its success is the stream to continue with.
\<close>

definition Stream_unwrap :: "('s, 'e, ('s, 'e, 'a) Stream) Effect \<Rightarrow> ('s, 'e, 'a) Stream" where
  "Stream_unwrap eff w =
     (case eff w of
        (Success st, w') \<Rightarrow> st w'
      | (Failure c, w') \<Rightarrow> (Halt c, w'))"

fun endsWell :: "('e, 'a) Pull \<Rightarrow> bool" where
  "endsWell Done = True"
| "endsWell (Emit a p) = endsWell p"
| "endsWell (Halt c) = False"

text \<open>Modelled from the spec: \<^verbatim>\<open>Stream.withSpan\<close> (effect package), as \<^verbatim>\<open>Effect.withSpan\<close> above.\<close>

definition Stream_withSpan ::
  "string \<Rightarrow> (string \<times> string) list \<Rightarrow> ('s, 'e, 'a) Stream \<Rightarrow> ('s, 'e, 'a) Stream" where
  "Stream_withSpan name attrs st w =
     (case st w of
        (p, w') \<Rightarrow>
          (p, w'\<lparr>spans := spans w' @ [\<lparr>spanName = name, attributes = attrs, spanOk = endsWell p\<rparr>]\<rparr>))"

text \<open>Consumers: collect everything, or stop after at most \<open>n\<close> elements.\<close>

fun runCollect :: "('e, 'a) Pull \<Rightarrow> ('e, 'a list) Exit" where
  "runCollect Done = Success []"
| "runCollect (Emit a p) =
     (case runCollect p of Success as \<Rightarrow> Success (a # as) | Failure c \<Rightarrow> Failure c)"
| "runCollect (Halt c) = Failure c"

fun runTake :: "nat \<Rightarrow> ('e, 'a) Pull \<Rightarrow> ('e, 'a list) Exit" where
  "runTake 0 p = Success []"
| "runTake (Suc n) Done = Success []"
| "runTake (Suc n) (Emit a p) =
     (case runTake n p of Success as \<Rightarrow> Success (a # as) | Failure c \<Rightarrow> Failure c)"
| "runTake (Suc n) (Halt c) = Failure c"

text \<open>The callback \<^verbatim>\<open>stream\<close> hands to \<^verbatim>\<open>use\<close>: it returns the stream without consuming it.\<close>

definition stream_body ::
  "string \<Rightarrow> SqlValue list \<Rightarrow> 's Database \<Rightarrow> ('s, ('s, SqlError, Row) Stream) native" where
  "stream_body sql params db =
     nbind (prepare db sql) (\<lambda>stmt.
       nbind (iterate stmt params) (\<lambda>it. nreturn (Stream_fromIterable it)))"

definition stream :: "'s Database \<Rightarrow> string \<Rightarrow> SqlValue list \<Rightarrow> ('s, SqlError, Row) Stream" where
  "stream db sql params =
     Stream_withSpan ''SqlClient.stream'' [(''sql'', sql)]
       (Stream_unwrap (use db (stream_body sql params)))"

subsection \<open>The same operations with the span wrapper removed\<close>

definition query_unspanned ::
  "'s Database \<Rightarrow> string \<Rightarrow> SqlValue list \<Rightarrow> ('s, SqlError, Row list) Effect" where
  "query_unspanned db sql params = use db (query_body sql params)"

definition stream_unspanned ::
  "'s Database \<Rightarrow> string \<Rightarrow> SqlValue list \<Rightarrow> ('s, SqlError, Row) Stream" where
  "stream_unspanned db sql params = Stream_unwrap (use db (stream_body sql params))"

section \<open>Lifetime of the connection\<close>

text \<open>
  \<^verbatim>\<open>new Sqlite(filename)\<close> and \<^verbatim>\<open>db.close()\<close> as they act on the world. A successful
  construction and each call of \<^verbatim>\<open>close\<close> are noted in the journal.
\<close>

definition Sqlite_new :: "'s Driver \<Rightarrow> string \<Rightarrow> 's World \<Rightarrow> (fault + 's Database) \<times> 's World" where
  "Sqlite_new drv filename w =
     (case newSqlite drv filename of
        Inl x \<Rightarrow> (Inl x, w)
      | Inr s0 \<Rightarrow> (Inr (methods drv), w\<lparr>dbState := s0, journal := journal w @ [Opened]\<rparr>))"

definition db_close :: "'s Database \<Rightarrow> 's World \<Rightarrow> 's World" where
  "db_close db w = w\<lparr>journal := journal w @ [Closed]\<rparr>"

text \<open>
  Modelled from the spec: scopes and \<^verbatim>\<open>Effect.acquireRelease\<close> (effect package). A scope
  holds the release actions registered in it, the latest first. \<^verbatim>\<open>acquireRelease\<close>
  runs the acquisition and, when it succeeds, registers the release of what it
  acquired; closing the scope runs every registered release action and leaves none.
  \<^verbatim>\<open>Effect.sync\<close> runs a synchronous computation, and what it throws is a defect.
\<close>

record 's Scoped =
  world :: "'s World"
  finalizers :: "('s World \<Rightarrow> 's World) list"

type_synonym ('s, 'e, 'a) ScopedEffect = "'s Scoped \<Rightarrow> ('e, 'a) Exit \<times> 's Scoped"

definition Effect_sync :: "('s World \<Rightarrow> (fault + 'a) \<times> 's World) \<Rightarrow> ('s, 'e, 'a) ScopedEffect" where
  "Effect_sync f sc =
     (case f (world sc) of
        (Inl x, w') \<Rightarrow> (Failure (Die x), sc\<lparr>world := w'\<rparr>)
      | (Inr a, w') \<Rightarrow> (Success a, sc\<lparr>world := w'\<rparr>))"

definition acquireRelease ::
  "('s, 'e, 'a) ScopedEffect \<Rightarrow> ('a \<Rightarrow> 's World \<Rightarrow> 's World) \<Rightarrow> ('s, 'e, 'a) ScopedEffect" where
  "acquireRelease acquire release sc =
     (case acquire sc of
        (Success a, sc') \<Rightarrow> (Success a, sc'\<lparr>finalizers := release a # finalizers sc'\<rparr>)
      | (Failure c, sc') \<Rightarrow> (Failure c, sc'))"

definition closeScope :: "'s Scoped \<Rightarrow> 's Scoped" where
  "closeScope sc = sc\<lparr>world := fold (\<lambda>fin w. fin w) (finalizers sc) (world sc), finalizers := []\<rparr>"

text \<open>Decimal text of a number, for the template \<^verbatim>\<open>`User ${i}`\<close>.\<close>

fun string_of_nat :: "nat \<Rightarrow> string" where
  "string_of_nat n =
     (if n < 10 then [char_of (48 + n)]
      else string_of_nat (n div 10) @ [char_of (48 + n mod 10)])"

text \<open>
  The loop \<^verbatim>\<open>for (let i = 0; i < 30; i++) db.prepare("INSERT ...").run(`User ${i}`)\<close>,
  over the values of \<open>i\<close> still to come.
\<close>

fun insert_users :: "'s Database \<Rightarrow> nat list \<Rightarrow> ('s, unit) native" where
  "insert_users db [] = nreturn ()"
| "insert_users db (i # is) =
     nbind (prepare db ''INSERT INTO users (name) VALUES (?)'') (\<lambda>stmt.
       nbind (run stmt [Text (''User '' @ string_of_nat i)]) (\<lambda>_. insert_users db is))"

definition prepare_db :: "'s Database \<Rightarrow> ('s, unit) native" where
  "prepare_db db =
     nbind (exec db ''CREATE TABLE users (id INTEGER PRIMARY KEY, name TEXT)'') (\<lambda>_.
       insert_users db [0..<30])"

text \<open>
  The constructor of the service that also prepares the database: the connection is
  acquired with its release, then the table is created and filled. A fault thrown
  there, inside the generator, is a defect of the constructor. The service is the
  database the methods \<^verbatim>\<open>use\<close>, \<^verbatim>\<open>query\<close> and \<^verbatim>\<open>stream\<close> close over.
\<close>

definition SqlClient_make :: "'s Driver \<Rightarrow> ('s, 'e, 's Database) ScopedEffect" where
  "SqlClient_make drv sc =
     (case acquireRelease (Effect_sync (Sqlite_new drv '':memory:'')) db_close sc of
        (Failure c, sc1) \<Rightarrow> (Failure c, sc1)
      | (Success db, sc1) \<Rightarrow>
          (case prepare_db db (dbState (world sc1)) of
             (Inl x, s') \<Rightarrow> (Failure (Die x), sc1\<lparr>world := (world sc1)\<lparr>dbState := s'\<rparr>\<rparr>)
           | (Inr u, s') \<Rightarrow> (Success db, sc1\<lparr>world := (world sc1)\<lparr>dbState := s'\<rparr>\<rparr>)))"

text \<open>The constructor of the other file: acquisition and release only.\<close>

definition SqlClient_make_plain :: "'s Driver \<Rightarrow> ('s, 'e, 's Database) ScopedEffect" where
  "SqlClient_make_plain drv = acquireRelease (Effect_sync (Sqlite_new drv '':memory:'')) db_close"

text \<open>
  A program against the service: resource operations issued one after the other through
  \<^verbatim>\<open>use\<close>, each noted in the journal when it is issued; the first failure ends the
  program.
\<close>

fun run_ops ::
  "'s Database \<Rightarrow> ('s Database \<Rightarrow> ('s, unit) native) list \<Rightarrow> ('s, SqlError, unit) Effect" where
  "run_ops db [] w = (Success (), w)"
| "run_ops db (f # fs) w =
     (case use db f (w\<lparr>journal := journal w @ [Used]\<rparr>) of
        (Success u, w') \<Rightarrow> run_ops db fs w'
      | (Failure c, w') \<Rightarrow> (Failure c, w'))"

text \<open>
  How many operations of a program are issued from a given state of the database: all
  of them up to and including the first that throws.
\<close>

fun issued :: "'s Database \<Rightarrow> ('s Database \<Rightarrow> ('s, unit) native) list \<Rightarrow> 's \<Rightarrow> nat" where
  "issued db [] s = 0"
| "issued db (f # fs) s =
     (case f db s of
        (Inl x, s') \<Rightarrow> 1
      | (Inr u, s') \<Rightarrow> Suc (issued db fs s'))"

text \<open>
  Modelled from the spec: the owning scope of the service. The service is constructed
  in a fresh scope, the program runs if the construction succeeded, and the scope is
  closed on every exit path.
\<close>

definition run_scoped ::
  "('s, SqlError, 's Database) ScopedEffect \<Rightarrow> ('s Database \<Rightarrow> ('s Database \<Rightarrow> ('s, unit) native) list) \<Rightarrow>
     's World \<Rightarrow> (SqlError, unit) Exit \<times> 's World" where
  "run_scoped build program w =
     (case build \<lparr>world = w, finalizers = []\<rparr> of
        (Failure c, sc) \<Rightarrow> (Failure c, world (closeScope sc))
      | (Success db, sc) \<Rightarrow>
          (case run_ops db (program db) (world sc) of
             (ex, w') \<Rightarrow> (ex, world (closeScope (sc\<lparr>world := w'\<rparr>)))))"

section \<open>The request adapter\<close>

text \<open>
  What \<^verbatim>\<open>addRoute\<close> receives: the method (\<^verbatim>\<open>"get" | "post" | "put" | "delete"\<close>), the path,
  and per request the request object, of which the hook reads the headers only.
\<close>

datatype Method = Get | Post | Put | Delete

record Request =
  headers :: "(string \<times> string) list"

text \<open>
  The response object: the two flags the hook reads, and the calls that took effect on
  it, in order.
\<close>

datatype ResCall = WriteHead nat | End

record Response =
  headersSent :: bool
  writableEnded :: bool
  calls :: "ResCall list"

text \<open>\<^verbatim>\<open>res.writeHead(status)\<close> throws once the headers are sent.\<close>

definition writeHead :: "nat \<Rightarrow> Response \<Rightarrow> fault + Response" where
  "writeHead status res =
     (if headersSent res then Inl ''ERR_HTTP_HEADERS_SENT''
      else Inr (res\<lparr>headersSent := True, calls := calls res @ [WriteHead status]\<rparr>))"

text \<open>\<^verbatim>\<open>res.end()\<close> sends the headers if they are not sent yet; on an ended response it does nothing.\<close>

definition end_response :: "Response \<Rightarrow> Response" where
  "end_response res =
     (if writableEnded res then res
      else res\<lparr>headersSent := True, writableEnded := True, calls := calls res @ [End]\<rparr>)"

datatype LogLevel = Fatal | Error | Warning | Info | Debug | Trace

record 'e LogEntry =
  level :: LogLevel
  message :: string
  logCause :: "'e Cause"
  annMethod :: Method
  annPath :: string
  annHeaders :: "(string \<times> string) list"

text \<open>
  \<^verbatim>\<open>Effect.annotateLogs(Effect.logWarning("Unhandled error in route", exit.cause), { method, path, headers: req.headers })\<close>
\<close>

definition unhandled_error_log :: "Method \<Rightarrow> string \<Rightarrow> Request \<Rightarrow> 'e Cause \<Rightarrow> 'e LogEntry" where
  "unhandled_error_log method path req c =
     \<lparr>level = Warning, message = ''Unhandled error in route'', logCause = c,
      annMethod = method, annPath = path, annHeaders = headers req\<rparr>"

text \<open>
  The callback given to \<^verbatim>\<open>Effect.onExit\<close> in \<^verbatim>\<open>addRoute\<close>: the response after it, and the
  log entries of the effect it returns; or the fault it throws. The test
  \<^verbatim>\<open>Exit.isFailure(exit) && !Cause.isInterruptedOnly(exit.cause)\<close> is the case distinction
  on the exit.
\<close>

definition onExit_hook ::
  "Method \<Rightarrow> string \<Rightarrow> Request \<Rightarrow> ('e, 'a) Exit \<Rightarrow> Response \<Rightarrow> fault + (Response \<times> 'e LogEntry list)" where
  "onExit_hook method path req exit res =
     (case (if \<not> headersSent res then writeHead (if isSuccess exit then 204 else 500) res
            else Inr res) of
        Inl x \<Rightarrow> Inl x
      | Inr res1 \<Rightarrow>
          (let res2 = (if \<not> writableEnded res1 then end_response res1 else res1)
           in Inr (res2,
                   (case exit of
                      Failure c \<Rightarrow>
                        if \<not> isInterruptedOnly c then [unhandled_error_log method path req c] else []
                    | Success a \<Rightarrow> []))))"

section \<open>A small backend to run the definitions on\<close>

text \<open>
  A table of users held as the list of its rows, with the statements the program
  issues. A selection hands over the rows; an insertion appends one and returns no
  data; \<^verbatim>\<open>SELECT abs(-9223372036854775808)\<close> prepares, and fails with an integer
  overflow when its only row is computed; any other text does not prepare.
\<close>

definition no_data :: fault where
  "no_data = ''TypeError: This statement does not return data. Use run() instead''"

definition overflow :: fault where
  "overflow = ''SqliteError: integer overflow''"

fun iterator_of :: "'r list \<Rightarrow> 'r Iterator" where
  "iterator_of [] = IterDone"
| "iterator_of (r # rs) = IterYield r (iterator_of rs)"

definition select_users :: "Row list Statement" where
  "select_users =
     \<lparr>reader = True,
      all_rows = (\<lambda>params s. (Inr (Some s), s)),
      run = (\<lambda>params s. (Inr (), s)),
      iterate = (\<lambda>params s. (Inr (iterator_of s), s))\<rparr>"

definition insert_user :: "Row list Statement" where
  "insert_user =
     \<lparr>reader = False,
      all_rows = (\<lambda>params s. (Inl no_data, s)),
      run = (\<lambda>params s.
        (case params of
           [Text name] \<Rightarrow> (Inr (), s @ [[(''id'', Integer (int (length s) + 1)), (''name'', Text name)]])
         | _ \<Rightarrow> (Inl ''RangeError: Too few parameter values were provided'', s))),
      iterate = (\<lambda>params s. (Inl no_data, s))\<rparr>"

definition select_overflow :: "Row list Statement" where
  "select_overflow =
     \<lparr>reader = True,
      all_rows = (\<lambda>params s. (Inl overflow, s)),
      run = (\<lambda>params s. (Inl overflow, s)),
      iterate = (\<lambda>params s. (Inr (IterThrow overflow), s))\<rparr>"

definition sample_db :: "Row list Database" where
  "sample_db =
     \<lparr>prepare = (\<lambda>sql s.
        if sql = ''SELECT * FROM users'' then (Inr select_users, s)
        else if sql = ''INSERT INTO users (name) VALUES (?)'' then (Inr insert_user, s)
        else if sql = ''SELECT abs(-9223372036854775808)'' then (Inr select_overflow, s)
        else (Inl ''SqliteError: syntax error'', s)),
      exec = (\<lambda>sql s.
        if sql = ''CREATE TABLE users (id INTEGER PRIMARY KEY, name TEXT)'' then (Inr (), [])
        else (Inl ''SqliteError: syntax error'', s))\<rparr>"

definition sample_driver :: "Row list Driver" where
  "sample_driver = \<lparr>newSqlite = (\<lambda>filename. Inr []), methods = sample_db\<rparr>"

text \<open>A driver whose database cannot create the table: the constructor fails after the acquisition.\<close>

definition broken_driver :: "Row list Driver" where
  "broken_driver =
     \<lparr>newSqlite = (\<lambda>filename. Inr []),
      methods = sample_db\<lparr>exec := (\<lambda>sql s. (Inl ''SqliteError: disk I/O error'', s))\<rparr>\<rparr>"

text \<open>A driver that cannot open a database at all.\<close>

definition refusing_driver :: "Row list Driver" where
  "refusing_driver =
     \<lparr>newSqlite = (\<lambda>filename. Inl ''SqliteError: unable to open database file''),
      methods = sample_db\<rparr>"

definition alice :: Row where
  "alice = [(''id'', Integer 1), (''name'', Text ''Alice'')]"

definition bob :: Row where
  "bob = [(''id'', Integer 2), (''name'', Text ''Bob'')]"

definition world_of :: "Row list \<Rightarrow> Row list World" where
  "world_of rows = \<lparr>dbState = rows, spans = [], journal = []\<rparr>"

definition fresh_response :: Response where
  "fresh_response = \<lparr>headersSent = False, writableEnded = False, calls = []\<rparr>"

section \<open>Properties\<close>

lemma fst_Effect_withSpan: "fst (Effect_withSpan name attrs eff w) = fst (eff w)"
  by (simp add: Effect_withSpan_def split: prod.splits)

lemma dbState_Effect_withSpan:
  "dbState (snd (Effect_withSpan name attrs eff w)) = dbState (snd (eff w))"
  by (simp add: Effect_withSpan_def split: prod.splits)

lemma fst_Effect_try:
  "fst (Effect_try t c w) =
     (case fst (t (dbState w)) of Inl x \<Rightarrow> Failure (Fail (c x)) | Inr a \<Rightarrow> Success a)"
  by (simp add: Effect_try_def split: prod.splits sum.splits)

lemma dbState_Effect_try: "dbState (snd (Effect_try t c w)) = snd (t (dbState w))"
  by (simp add: Effect_try_def split: prod.splits sum.splits)

lemma fst_use:
  "fst (use db f w) =
     (case fst (f db (dbState w)) of Inl x \<Rightarrow> Failure (Fail (SqlError x)) | Inr a \<Rightarrow> Success a)"
  by (simp add: use_def fst_Effect_withSpan fst_Effect_try)

lemma dbState_use: "dbState (snd (use db f w)) = snd (f db (dbState w))"
  by (simp add: use_def dbState_Effect_withSpan dbState_Effect_try)

lemma fst_Stream_withSpan: "fst (Stream_withSpan name attrs st w) = fst (st w)"
  by (simp add: Stream_withSpan_def split: prod.splits)

lemma dbState_Stream_withSpan:
  "dbState (snd (Stream_withSpan name attrs st w)) = dbState (snd (st w))"
  by (simp add: Stream_withSpan_def split: prod.splits)

lemma use_throw:
  "f db (dbState w) = (Inl x, s') \<Longrightarrow>
     \<exists>w'. use db f w = (Failure (Fail (SqlError x)), w') \<and> dbState w' = s'"
  by (simp add: use_def Effect_withSpan_def Effect_try_def)

lemma use_return:
  "f db (dbState w) = (Inr a, s') \<Longrightarrow> \<exists>w'. use db f w = (Success a, w') \<and> dbState w' = s'"
  by (simp add: use_def Effect_withSpan_def Effect_try_def)

lemma stream_construction_fault:
  assumes "fst (stream_body sql params db (dbState w)) = Inl x"
  shows "fst (stream db sql params w) = Halt (Fail (SqlError x))"
proof -
  obtain s' where eq: "stream_body sql params db (dbState w) = (Inl x, s')"
    using assms by (cases "stream_body sql params db (dbState w)") simp
  obtain w' where "use db (stream_body sql params) w = (Failure (Fail (SqlError x)), w')"
    using use_throw [of "stream_body sql params" db w x s', OF eq] by (elim exE conjE)
  then show ?thesis
    by (simp add: stream_def fst_Stream_withSpan Stream_unwrap_def)
qed


subsection \<open>Faults are normalised by \<open>use\<close>\<close>

text \<open>
  For every operation \<open>f\<close> handed to \<open>use\<close>, the outcome is the value \<open>f\<close> returned, or
  the typed failure \<open>SqlError\<close> whose cause is exactly the fault \<open>f\<close> threw. The same
  holds for \<open>query\<close>, whose operation is \<open>query_body\<close>, and a fault thrown by the
  operation of \<open>stream\<close> makes the stream fail with that \<open>SqlError\<close>.
\<close>

lemma use_normalizes_faults:
  "fst (use db f w) =
     (case fst (f db (dbState w)) of Inl x \<Rightarrow> Failure (Fail (SqlError x)) | Inr a \<Rightarrow> Success a)
   \<and> fst (query db sql params w) =
     (case fst (query_body sql params db (dbState w)) of
        Inl x \<Rightarrow> Failure (Fail (SqlError x)) | Inr rows \<Rightarrow> Success rows)
   \<and> (\<forall>x. fst (stream_body sql params db (dbState w)) = Inl x \<longrightarrow>
          fst (stream db sql params w) = Halt (Fail (SqlError x)))"
proof (intro conjI allI impI)
  show "fst (use db f w) =
     (case fst (f db (dbState w)) of Inl x \<Rightarrow> Failure (Fail (SqlError x)) | Inr a \<Rightarrow> Success a)"
    by (rule fst_use)
  show "fst (query db sql params w) =
     (case fst (query_body sql params db (dbState w)) of
        Inl x \<Rightarrow> Failure (Fail (SqlError x)) | Inr rows \<Rightarrow> Success rows)"
    unfolding query_def fst_Effect_withSpan by (rule fst_use)
  show "fst (stream db sql params w) = Halt (Fail (SqlError x))"
    if "fst (stream_body sql params db (dbState w)) = Inl x" for x
    using that by (rule stream_construction_fault)
qed

lemma dbState_world_of: "dbState (world_of rows) = rows"
  by (simp add: world_of_def)

lemma prepare_unknown:
  "prepare sample_db ''SELEKT'' s = (Inl ''SqliteError: syntax error'', s)"
  by (simp add: sample_db_def)

lemma prepare_select: "prepare sample_db ''SELECT * FROM users'' s = (Inr select_users, s)"
  by (simp add: sample_db_def)

lemma prepare_insert:
  "prepare sample_db ''INSERT INTO users (name) VALUES (?)'' s = (Inr insert_user, s)"
  by (simp add: sample_db_def)

lemma prepare_overflow:
  "prepare sample_db ''SELECT abs(-9223372036854775808)'' s = (Inr select_overflow, s)"
  by (simp add: sample_db_def)

subsection \<open>Streams: where a fault of the iterator goes\<close>

lemma emit_chunk_Halt: "emit_chunk builder p = Halt c \<longleftrightarrow> builder = [] \<and> p = Halt c"
  by (cases builder) simp_all

lemma runCollect_emit_chunk:
  "runCollect (emit_chunk builder p) =
     (case runCollect p of Success as \<Rightarrow> Success (builder @ as) | Failure c \<Rightarrow> Failure c)"
  by (induction builder) (simp_all split: Exit.splits)

lemma fromIterator_chunks_untyped: "fromIterator_chunks n builder it \<noteq> Halt (Fail e)"
  by (induction it arbitrary: builder) (simp_all add: emit_chunk_Halt)

lemma runCollect_fromIterator_chunks_untyped:
  "runCollect (fromIterator_chunks n builder it) \<noteq> Failure (Fail e)"
  by (induction it arbitrary: builder) (auto simp add: runCollect_emit_chunk split: Exit.splits)

lemma fromIterable_pull_untyped: "fromIterable_pull it \<noteq> Halt (Fail e)"
  by (simp add: fromIterable_pull_def fromIterator_chunks_untyped)

lemma runCollect_fromIterable_untyped: "runCollect (fromIterable_pull it) \<noteq> Failure (Fail e)"
  by (simp add: fromIterable_pull_def runCollect_fromIterator_chunks_untyped)

text \<open>A fault while a chunk is filled takes the rows of that chunk with it.\<close>

lemma fault_loses_the_chunk:
  "(fromIterable_pull (IterYield alice (IterThrow overflow)) :: (SqlError, Row) Pull) = Halt (Die overflow)"
  by (simp add: fromIterable_pull_def DefaultChunkSize_def)

lemma fromIterable_two_rows:
  "(fromIterable_pull (iterator_of [alice, bob]) :: (SqlError, Row) Pull) = Emit alice (Emit bob Done)"
  by (simp add: fromIterable_pull_def DefaultChunkSize_def)

text \<open>
  Once the statement is prepared and \<open>iterate\<close> has returned its iterator, \<open>use\<close> is
  over: the stream is the iterator's own, with no typed failure in it.
\<close>

lemma stream_of_iterator:
  assumes "prepare db sql (dbState w) = (Inr stmt, s1)"
    and "iterate stmt params s1 = (Inr it, s2)"
  shows "fst (stream db sql params w) = fromIterable_pull it"
proof -
  have body: "stream_body sql params db (dbState w) = (Inr (Stream_fromIterable it), s2)"
    using assms by (simp add: stream_body_def nbind_def nreturn_def)
  obtain w' where "use db (stream_body sql params) w = (Success (Stream_fromIterable it), w')"
    using use_return [of "stream_body sql params" db w "Stream_fromIterable it" s2, OF body]
    by (elim exE conjE)
  then show ?thesis
    by (simp add: stream_def fst_Stream_withSpan Stream_unwrap_def Stream_fromIterable_def)
qed

text \<open>
  Claim C2, at a statement that prepares and whose first row cannot be computed. The
  operation \<open>stream\<close> hands to \<open>use\<close> returns without a fault, so \<open>use\<close> succeeds and has
  nothing to normalise; the fault is thrown when the stream is consumed, and the
  consumer receives it as an untyped defect: a failure that crosses the resource
  boundary without being a \<open>SqlError\<close>.
\<close>

theorem untyped_fault_crosses_stream_boundary:
  "isSuccess (fst (use sample_db (stream_body ''SELECT abs(-9223372036854775808)'' []) (world_of [])))
   \<and> runCollect (fst (stream sample_db ''SELECT abs(-9223372036854775808)'' [] (world_of [])))
       = Failure (Die overflow)"
proof -
  have p: "prepare sample_db ''SELECT abs(-9223372036854775808)'' (dbState (world_of []))
             = (Inr select_overflow, [])"
    by (simp add: prepare_overflow dbState_world_of)
  have i: "iterate select_overflow [] [] = (Inr (IterThrow overflow), [])"
    by (simp add: select_overflow_def)
  have "fst (stream_body ''SELECT abs(-9223372036854775808)'' [] sample_db (dbState (world_of [])))
          = Inr (Stream_fromIterable (IterThrow overflow))"
    using p i by (simp add: stream_body_def nbind_def nreturn_def)
  then have u: "isSuccess (fst (use sample_db (stream_body ''SELECT abs(-9223372036854775808)'' []) (world_of [])))"
    by (simp add: fst_use)
  have "fst (stream sample_db ''SELECT abs(-9223372036854775808)'' [] (world_of []))
          = Halt (Die overflow)"
    using stream_of_iterator [OF p i] by (simp add: fromIterable_pull_def)
  with u show ?thesis
    by simp
qed

text \<open>
  Claim C6, at a statement that prepares and whose first row cannot be computed. The
  stream halts with the fault as an untyped defect, also for a consumer collecting
  it, and not with \<open>SqlError\<close>; \<open>query\<close> on the same statement fails with
  \<open>SqlError\<close>. A consumer that asks for no element sees no failure.
\<close>

theorem stream_row_fault_is_untyped:
  "fst (stream sample_db ''SELECT abs(-9223372036854775808)'' [] (world_of [alice])) = Halt (Die overflow)
   \<and> runCollect (fst (stream sample_db ''SELECT abs(-9223372036854775808)'' [] (world_of [alice])))
       = Failure (Die overflow)
   \<and> runTake 0 (fst (stream sample_db ''SELECT abs(-9223372036854775808)'' [] (world_of [alice])))
       = Success []
   \<and> fst (query sample_db ''SELECT abs(-9223372036854775808)'' [] (world_of [alice]))
       = Failure (Fail (SqlError overflow))"
proof -
  have p: "prepare sample_db ''SELECT abs(-9223372036854775808)'' (dbState (world_of [alice]))
             = (Inr select_overflow, [alice])"
    by (simp add: prepare_overflow dbState_world_of)
  have i: "iterate select_overflow [] [alice] = (Inr (IterThrow overflow), [alice])"
    by (simp add: select_overflow_def)
  have s: "fst (stream sample_db ''SELECT abs(-9223372036854775808)'' [] (world_of [alice]))
             = Halt (Die overflow)"
    using stream_of_iterator [OF p i] by (simp add: fromIterable_pull_def)
  have "query_body ''SELECT abs(-9223372036854775808)'' [] sample_db (dbState (world_of [alice]))
          = (Inl overflow, [alice])"
    by (simp add: query_body_def nbind_def p select_overflow_def)
  then have q: "fst (query sample_db ''SELECT abs(-9223372036854775808)'' [] (world_of [alice]))
          = Failure (Fail (SqlError overflow))"
    by (simp add: query_def fst_Effect_withSpan fst_use)
  show ?thesis
    by (simp add: s q)
qed


subsection \<open>Queries: rows of a selection, nothing for a mutation, or the typed error\<close>

lemma query_of_body:
  assumes "query_body sql params db (dbState w) = (Inr rows, s')"
  shows "fst (query db sql params w) = Success rows \<and> dbState (snd (query db sql params w)) = s'"
  using assms by (simp add: query_def fst_Effect_withSpan dbState_Effect_withSpan fst_use dbState_use)

lemma query_body_outcome:
  "query_body sql params db s =
     (case prepare db sql s of
        (Inl x, s1) \<Rightarrow> (Inl x, s1)
      | (Inr stmt, s1) \<Rightarrow>
          if reader stmt
          then (case all_rows stmt params s1 of
                  (Inl x, s2) \<Rightarrow> (Inl x, s2)
                | (Inr r, s2) \<Rightarrow> (Inr (case r of Some rows \<Rightarrow> rows | None \<Rightarrow> []), s2))
          else (case run stmt params s1 of
                  (Inl x, s2) \<Rightarrow> (Inl x, s2)
                | (Inr u, s2) \<Rightarrow> (Inr [], s2)))"
  by (simp add: query_body_def nbind_def nreturn_def split: prod.splits sum.splits)

text \<open>
  Claim C3, as the code has it. For every statement and parameter list \<open>query\<close> gives a
  sequence of rows or the typed error. If preparing throws, it fails with \<open>SqlError\<close>
  carrying the fault. If the statement returns data, \<open>all\<close> is called: a fault gives
  \<open>SqlError\<close>, otherwise the rows are returned as the backend handed them over, and the
  empty sequence if it handed over none. If the statement returns no data, \<open>run\<close> is
  called: a fault gives \<open>SqlError\<close>, otherwise the result is the empty sequence. In
  every case the database is left in the state the last call produced, so a mutation
  has been executed.
\<close>

theorem query_outcome:
  "fst (query db sql params w) =
     (case prepare db sql (dbState w) of
        (Inl x, s1) \<Rightarrow> Failure (Fail (SqlError x))
      | (Inr stmt, s1) \<Rightarrow>
          if reader stmt
          then (case all_rows stmt params s1 of
                  (Inl x, s2) \<Rightarrow> Failure (Fail (SqlError x))
                | (Inr r, s2) \<Rightarrow> Success (case r of Some rows \<Rightarrow> rows | None \<Rightarrow> []))
          else (case run stmt params s1 of
                  (Inl x, s2) \<Rightarrow> Failure (Fail (SqlError x))
                | (Inr u, s2) \<Rightarrow> Success []))
   \<and> dbState (snd (query db sql params w)) =
     (case prepare db sql (dbState w) of
        (Inl x, s1) \<Rightarrow> s1
      | (Inr stmt, s1) \<Rightarrow>
          if reader stmt then snd (all_rows stmt params s1) else snd (run stmt params s1))"
  by (simp add: query_def fst_Effect_withSpan dbState_Effect_withSpan fst_use dbState_use
        query_body_outcome split: prod.splits sum.splits)

theorem query_outcome_witness:
  "fst (query sample_db ''SELECT * FROM users'' [] (world_of [alice, bob])) = Success [alice, bob]
   \<and> fst (query sample_db ''INSERT INTO users (name) VALUES (?)'' [Text ''Bob''] (world_of [alice])) = Success []
   \<and> dbState (snd (query sample_db ''INSERT INTO users (name) VALUES (?)'' [Text ''Bob''] (world_of [alice])))
       = [alice, bob]
   \<and> fst (query sample_db ''INSERT INTO users (name) VALUES (?)'' [] (world_of [alice])) =
       Failure (Fail (SqlError ''RangeError: Too few parameter values were provided''))"
proof -
  have r1: "reader select_users \<and> all_rows select_users [] [alice, bob] = (Inr (Some [alice, bob]), [alice, bob])"
    by (simp add: select_users_def)
  have r2: "\<not> reader insert_user \<and> run insert_user [Text ''Bob''] [alice] = (Inr (), [alice, bob])"
    by (simp add: insert_user_def alice_def bob_def)
  have r3: "run insert_user [] [alice] = (Inl ''RangeError: Too few parameter values were provided'', [alice])"
    by (simp add: insert_user_def)
  show ?thesis
    using query_outcome [of sample_db "''SELECT * FROM users''" "[]" "world_of [alice, bob]"]
      query_outcome [of sample_db "''INSERT INTO users (name) VALUES (?)''" "[Text ''Bob'']" "world_of [alice]"]
      query_outcome [of sample_db "''INSERT INTO users (name) VALUES (?)''" "[]" "world_of [alice]"]
    by (simp add: prepare_select prepare_insert dbState_world_of r1 r2 r3)
qed

text \<open>
  Claim C3 as stated has \<open>query\<close> return a sequence for every statement. A text that
  is no statement does not prepare, and \<open>query\<close> fails with the typed error.
\<close>

theorem query_fails_when_statement_does_not_prepare:
  "fst (query sample_db ''SELEKT'' [] (world_of [alice])) =
     Failure (Fail (SqlError ''SqliteError: syntax error''))"
  by (simp add: query_def fst_Effect_withSpan fst_use query_body_outcome prepare_unknown)


subsection \<open>The completion hook\<close>

text \<open>
  The hook is guarded by the two flags of the response: run on the response it has
  left, it writes and ends nothing more.
\<close>

lemma hook_second_run_changes_nothing:
  assumes "onExit_hook method path req exit res = Inr (res', logs)"
  shows "\<exists>logs'. onExit_hook method path req exit' res' = Inr (res', logs')"
  using assms
  by (auto simp add: onExit_hook_def writeHead_def end_response_def Let_def split: if_splits)

text \<open>
  Claim C4. For a failure, the hook emits no log entry when the cause holds
  interruptions only, and otherwise exactly one entry, of level warning, carrying the
  cause and annotated with the method, the path and the headers of the request.
\<close>

theorem failure_logged_unless_interrupted_only:
  "\<exists>res'. onExit_hook method path req (Failure c) res =
     Inr (res',
          if isInterruptedOnly c then []
          else [\<lparr>level = Warning, message = ''Unhandled error in route'', logCause = c,
                 annMethod = method, annPath = path, annHeaders = headers req\<rparr>])"
  by (simp add: onExit_hook_def writeHead_def Let_def unhandled_error_log_def)

theorem failure_logged_unless_interrupted_only_witness:
  "(\<exists>res'. onExit_hook Get ''/users'' \<lparr>headers = [(''host'', ''localhost'')]\<rparr>
              (Failure (Interrupt 0) :: (SqlError, unit) Exit) fresh_response = Inr (res', []))
   \<and> (\<exists>res'. onExit_hook Get ''/users'' \<lparr>headers = [(''host'', ''localhost'')]\<rparr>
              (Failure (Fail (SqlError overflow)) :: (SqlError, unit) Exit) fresh_response =
            Inr (res', [\<lparr>level = Warning, message = ''Unhandled error in route'',
                         logCause = Fail (SqlError overflow), annMethod = Get, annPath = ''/users'',
                         annHeaders = [(''host'', ''localhost'')]\<rparr>]))"
  using failure_logged_unless_interrupted_only
          [of Get "''/users''" "\<lparr>headers = [(''host'', ''localhost'')]\<rparr>" "Interrupt 0" fresh_response]
        failure_logged_unless_interrupted_only
          [of Get "''/users''" "\<lparr>headers = [(''host'', ''localhost'')]\<rparr>" "Fail (SqlError overflow)" fresh_response]
  by simp

text \<open>
  Claim C5, as the code has it. The hook never throws. When the headers are not sent
  it writes one status: 204 for a success, 500 for every failure, a cancellation
  included. When the response is not ended it ends it. Afterwards the headers are sent
  and the response is ended.
\<close>

theorem hook_writes_status_and_ends:
  "\<exists>res' logs.
     onExit_hook method path req exit res = Inr (res', logs)
     \<and> calls res' =
         calls res
         @ (if headersSent res then [] else [WriteHead (if isSuccess exit then 204 else 500)])
         @ (if writableEnded res then [] else [End])
     \<and> headersSent res' \<and> writableEnded res'"
  by (simp add: onExit_hook_def writeHead_def end_response_def Let_def)

theorem hook_writes_status_and_ends_witness:
  "(\<exists>logs. onExit_hook Get ''/users'' \<lparr>headers = []\<rparr> (Success () :: (SqlError, unit) Exit) fresh_response =
      Inr (\<lparr>headersSent = True, writableEnded = True, calls = [WriteHead 204, End]\<rparr>, logs))
   \<and> (\<exists>logs. onExit_hook Get ''/users'' \<lparr>headers = []\<rparr>
          (Failure (Fail (SqlError overflow)) :: (SqlError, unit) Exit) fresh_response =
      Inr (\<lparr>headersSent = True, writableEnded = True, calls = [WriteHead 500, End]\<rparr>, logs))"
  using hook_writes_status_and_ends [of Get "''/users''" "\<lparr>headers = []\<rparr>" "Success () :: (SqlError, unit) Exit" fresh_response]
        hook_writes_status_and_ends [of Get "''/users''" "\<lparr>headers = []\<rparr>"
          "Failure (Fail (SqlError overflow)) :: (SqlError, unit) Exit" fresh_response]
  by (auto simp add: fresh_response_def)

text \<open>
  Claim C5 as stated has a cancellation write no status. A cancelled task ends with a
  failure holding an interruption only; with nothing sent yet, the hook writes the
  status 500 for it, then ends the response.
\<close>

theorem cancellation_writes_500:
  "isInterruptedOnly (Interrupt 0 :: SqlError Cause)
   \<and> onExit_hook Get ''/users'' \<lparr>headers = []\<rparr> (Failure (Interrupt 0) :: (SqlError, unit) Exit) fresh_response =
       Inr (\<lparr>headersSent = True, writableEnded = True, calls = [WriteHead 500, End]\<rparr>, [])"
  by (simp add: onExit_hook_def writeHead_def end_response_def fresh_response_def)

subsection \<open>Spans are metadata\<close>

text \<open>
  Claim C9. \<open>query\<close> and \<open>stream\<close> give the same outcome (the rows and their order, or
  the failure) and leave the database in the same state as the same operations without
  their span; the worlds differ in the recorded spans only.
\<close>

theorem spans_do_not_alter_results:
  "fst (query db sql params w) = fst (query_unspanned db sql params w)
   \<and> dbState (snd (query db sql params w)) = dbState (snd (query_unspanned db sql params w))
   \<and> fst (stream db sql params w) = fst (stream_unspanned db sql params w)
   \<and> dbState (snd (stream db sql params w)) = dbState (snd (stream_unspanned db sql params w))"
  by (simp add: query_def query_unspanned_def stream_def stream_unspanned_def
        fst_Effect_withSpan dbState_Effect_withSpan fst_Stream_withSpan dbState_Stream_withSpan)

theorem spans_do_not_alter_results_witness:
  "fst (query_unspanned sample_db ''SELECT * FROM users'' [] (world_of [alice, bob])) = Success [alice, bob]
   \<and> fst (stream_unspanned sample_db ''SELECT * FROM users'' [] (world_of [alice, bob]))
       = Emit alice (Emit bob Done)"
proof -
  have p: "prepare sample_db ''SELECT * FROM users'' (dbState (world_of [alice, bob]))
              = (Inr select_users, [alice, bob])"
    by (simp add: prepare_select dbState_world_of)
  have i: "iterate select_users [] [alice, bob] = (Inr (iterator_of [alice, bob]), [alice, bob])"
    by (simp add: select_users_def)
  have "query_body ''SELECT * FROM users'' [] sample_db (dbState (world_of [alice, bob]))
          = (Inr [alice, bob], [alice, bob])"
    by (simp add: query_body_def nbind_def nreturn_def p select_users_def)
  then have q: "fst (query sample_db ''SELECT * FROM users'' [] (world_of [alice, bob])) = Success [alice, bob]"
    by (simp add: query_of_body)
  have s: "fst (stream sample_db ''SELECT * FROM users'' [] (world_of [alice, bob])) = Emit alice (Emit bob Done)"
    using stream_of_iterator [OF p i] fromIterable_two_rows by simp
  show ?thesis
    using spans_do_not_alter_results [of sample_db "''SELECT * FROM users''" "[]" "world_of [alice, bob]"] q s
    by simp
qed



subsection \<open>The connection is released once, when the scope ends\<close>

lemma journal_use: "journal (snd (use db f w)) = journal w"
  by (simp add: use_def Effect_withSpan_def Effect_try_def split: prod.splits sum.splits)

text \<open>A program notes each operation it issues, and nothing else, in the journal.\<close>

lemma journal_run_ops:
  "journal (snd (run_ops db fs w)) = journal w @ replicate (issued db fs (dbState w)) Used"
proof (induction fs arbitrary: w)
  case Nil
  show ?case by simp
next
  case (Cons f fs)
  let ?w0 = "w\<lparr>journal := journal w @ [Used]\<rparr>"
  obtain r s' where f: "f db (dbState w) = (r, s')"
    by (cases "f db (dbState w)")
  obtain ex w' where u: "use db f ?w0 = (ex, w')"
    by (cases "use db f ?w0")
  have j: "journal w' = journal w @ [Used]"
    using journal_use [of db f ?w0] u by simp
  have d: "dbState w' = s'"
    using dbState_use [of db f ?w0] u f by simp
  have e: "ex = (case r of Inl x \<Rightarrow> Failure (Fail (SqlError x)) | Inr a \<Rightarrow> Success a)"
    using fst_use [of db f ?w0] u f by simp
  show ?case
  proof (cases r)
    case (Inl x)
    with e u f j show ?thesis by simp
  next
    case (Inr a)
    with e u f j d Cons.IH [of w'] show ?thesis
      by (simp add: replicate_append_same)
  qed
qed

lemma acquire_failed:
  assumes "newSqlite drv '':memory:'' = Inl x"
  shows "acquireRelease (Effect_sync (Sqlite_new drv '':memory:'')) db_close sc = (Failure (Die x), sc)"
  using assms by (simp add: acquireRelease_def Effect_sync_def Sqlite_new_def)

lemma acquire_succeeded:
  assumes "newSqlite drv '':memory:'' = Inr s0"
  shows "acquireRelease (Effect_sync (Sqlite_new drv '':memory:'')) db_close sc =
           (Success (methods drv),
            sc\<lparr>world := (world sc)\<lparr>dbState := s0, journal := journal (world sc) @ [Opened]\<rparr>,
               finalizers := db_close (methods drv) # finalizers sc\<rparr>)"
  using assms by (simp add: acquireRelease_def Effect_sync_def Sqlite_new_def)

text \<open>
  The end of a scope that holds the release of the connection: \<open>db.close()\<close> runs, once,
  on the world the program left.
\<close>

lemma closeScope_release:
  "finalizers sc = [db_close db] \<Longrightarrow>
     journal (world (closeScope (sc\<lparr>world := w'\<rparr>))) = journal w' @ [Closed]"
  by (simp add: closeScope_def db_close_def)

lemma run_scoped_plain_journal:
  fixes drv :: "'s Driver"
  assumes "newSqlite drv '':memory:'' = Inr s0"
  shows "journal (snd (run_scoped (SqlClient_make_plain drv) program w)) =
           journal w @ Opened # replicate (issued (methods drv) (program (methods drv)) s0) Used @ [Closed]"
proof -
  let ?w1 = "w\<lparr>dbState := s0, journal := journal w @ [Opened]\<rparr>"
  let ?sc = "\<lparr>world = ?w1, finalizers = [db_close (methods drv)]\<rparr>"
  have m: "SqlClient_make_plain drv \<lparr>world = w, finalizers = []\<rparr> =
             (Success (methods drv) :: (SqlError, 's Database) Exit, ?sc)"
    by (simp add: SqlClient_make_plain_def acquire_succeeded [OF assms])
  obtain ex w' where r: "run_ops (methods drv) (program (methods drv)) ?w1 = (ex, w')"
    by (cases "run_ops (methods drv) (program (methods drv)) ?w1")
  have "journal w' = journal ?w1 @ replicate (issued (methods drv) (program (methods drv)) (dbState ?w1)) Used"
    using journal_run_ops [of "methods drv" "program (methods drv)" ?w1] r by simp
  moreover have "journal (world (closeScope (?sc\<lparr>world := w'\<rparr>))) = journal w' @ [Closed]"
    by (rule closeScope_release) simp
  ultimately show ?thesis
    using m r by (simp add: run_scoped_def)
qed

lemma run_scoped_make_journal:
  fixes drv :: "'s Driver"
  assumes "newSqlite drv '':memory:'' = Inr s0"
  shows "journal (snd (run_scoped (SqlClient_make drv) program w)) =
           journal w @
           (case prepare_db (methods drv) s0 of
              (Inl x, s1) \<Rightarrow> [Opened, Closed]
            | (Inr u, s1) \<Rightarrow>
                Opened # replicate (issued (methods drv) (program (methods drv)) s1) Used @ [Closed])"
proof -
  let ?w1 = "w\<lparr>dbState := s0, journal := journal w @ [Opened]\<rparr>"
  obtain r s1 where p: "prepare_db (methods drv) s0 = (r, s1)"
    by (cases "prepare_db (methods drv) s0")
  let ?w2 = "?w1\<lparr>dbState := s1\<rparr>"
  let ?sc = "\<lparr>world = ?w2, finalizers = [db_close (methods drv)]\<rparr>"
  have c: "journal (world (closeScope (?sc\<lparr>world := v\<rparr>))) = journal v @ [Closed]" for v
    by (rule closeScope_release) simp
  show ?thesis
  proof (cases r)
    case (Inl x)
    have "SqlClient_make drv \<lparr>world = w, finalizers = []\<rparr> =
            (Failure (Die x) :: (SqlError, 's Database) Exit, ?sc)"
      using p Inl by (simp add: SqlClient_make_def acquire_succeeded [OF assms])
    then show ?thesis
      using p Inl c [of ?w2] by (simp add: run_scoped_def)
  next
    case (Inr u)
    have m: "SqlClient_make drv \<lparr>world = w, finalizers = []\<rparr> =
            (Success (methods drv) :: (SqlError, 's Database) Exit, ?sc)"
      using p Inr by (simp add: SqlClient_make_def acquire_succeeded [OF assms])
    obtain ex w' where ro: "run_ops (methods drv) (program (methods drv)) ?w2 = (ex, w')"
      by (cases "run_ops (methods drv) (program (methods drv)) ?w2")
    have "journal w' = journal ?w2 @ replicate (issued (methods drv) (program (methods drv)) (dbState ?w2)) Used"
      using journal_run_ops [of "methods drv" "program (methods drv)" ?w2] ro by simp
    then show ?thesis
      using m ro p Inr c [of w'] by (simp add: run_scoped_def)
  qed
qed

lemma run_scoped_not_acquired:
  fixes drv :: "'s Driver"
  assumes "newSqlite drv '':memory:'' = Inl x"
  shows "run_scoped (SqlClient_make drv) program w = (Failure (Die x), w)"
    and "run_scoped (SqlClient_make_plain drv) program w = (Failure (Die x), w)"
  by (simp_all add: run_scoped_def SqlClient_make_def SqlClient_make_plain_def
        acquire_failed [OF assms] closeScope_def)

text \<open>
  Claim C8. The journal of the whole life of the service, from its construction to the
  end of the owning scope. If \<open>new Sqlite\<close> threw, nothing was opened and nothing is
  closed. If it gave a connection, the construction leaves it open; then come the
  operations the program issues (none if the preparation of the table failed after
  the acquisition), whether they succeed or fail; and \<open>db.close()\<close> runs exactly once,
  last, when the scope ends. The same holds for the constructor without preparation.
\<close>

theorem release_once_when_scope_ends:
  fixes drv :: "'s Driver"
  shows
  "journal (world (snd (SqlClient_make drv \<lparr>world = w, finalizers = []\<rparr>
                          :: (SqlError, 's Database) Exit \<times> 's Scoped))) =
     journal w @ (case newSqlite drv '':memory:'' of Inl x \<Rightarrow> [] | Inr s0 \<Rightarrow> [Opened])
   \<and> journal (snd (run_scoped (SqlClient_make drv) program w)) =
     journal w @
     (case newSqlite drv '':memory:'' of
        Inl x \<Rightarrow> []
      | Inr s0 \<Rightarrow>
          (case prepare_db (methods drv) s0 of
             (Inl x, s1) \<Rightarrow> [Opened, Closed]
           | (Inr u, s1) \<Rightarrow>
               Opened # replicate (issued (methods drv) (program (methods drv)) s1) Used @ [Closed]))
   \<and> journal (world (snd (SqlClient_make_plain drv \<lparr>world = w, finalizers = []\<rparr>
                          :: (SqlError, 's Database) Exit \<times> 's Scoped))) =
     journal w @ (case newSqlite drv '':memory:'' of Inl x \<Rightarrow> [] | Inr s0 \<Rightarrow> [Opened])
   \<and> journal (snd (run_scoped (SqlClient_make_plain drv) program w)) =
     journal w @
     (case newSqlite drv '':memory:'' of
        Inl x \<Rightarrow> []
      | Inr s0 \<Rightarrow>
          Opened # replicate (issued (methods drv) (program (methods drv)) s0) Used @ [Closed])"
proof (cases "newSqlite drv '':memory:''")
  case (Inl x)
  have "journal (world (snd (SqlClient_make drv \<lparr>world = w, finalizers = []\<rparr>
                          :: (SqlError, 's Database) Exit \<times> 's Scoped))) = journal w"
    by (simp add: SqlClient_make_def acquire_failed [OF Inl])
  moreover have "journal (world (snd (SqlClient_make_plain drv \<lparr>world = w, finalizers = []\<rparr>
                          :: (SqlError, 's Database) Exit \<times> 's Scoped))) = journal w"
    by (simp add: SqlClient_make_plain_def acquire_failed [OF Inl])
  moreover have "journal (snd (run_scoped (SqlClient_make drv) program w)) = journal w"
    by (simp add: run_scoped_not_acquired(1) [OF Inl])
  moreover have "journal (snd (run_scoped (SqlClient_make_plain drv) program w)) = journal w"
    by (simp add: run_scoped_not_acquired(2) [OF Inl])
  ultimately show ?thesis
    using Inl by simp
next
  case (Inr s0)
  have "journal (world (snd (SqlClient_make drv \<lparr>world = w, finalizers = []\<rparr>
                          :: (SqlError, 's Database) Exit \<times> 's Scoped))) = journal w @ [Opened]"
    by (simp add: SqlClient_make_def acquire_succeeded [OF Inr] split: prod.splits sum.splits)
  moreover have "journal (world (snd (SqlClient_make_plain drv \<lparr>world = w, finalizers = []\<rparr>
                          :: (SqlError, 's Database) Exit \<times> 's Scoped))) = journal w @ [Opened]"
    by (simp add: SqlClient_make_plain_def acquire_succeeded [OF Inr])
  ultimately show ?thesis
    using Inr run_scoped_make_journal [OF Inr, of program w]
      run_scoped_plain_journal [OF Inr, of program w]
    by simp
qed

lemma broken_driver_prepare:
  "prepare_db (methods broken_driver) s = (Inl ''SqliteError: disk I/O error'', s)"
  by (simp add: prepare_db_def nbind_def broken_driver_def)

theorem release_once_when_scope_ends_witness:
  "journal (snd (run_scoped (SqlClient_make broken_driver) (\<lambda>db. []) (world_of []))) = [Opened, Closed]
   \<and> journal (snd (run_scoped (SqlClient_make_plain sample_driver)
        (\<lambda>db. [\<lambda>db. nbind (prepare db ''SELECT * FROM users'') (\<lambda>stmt. nreturn ()),
               \<lambda>db. nbind (prepare db ''SELEKT'') (\<lambda>stmt. nreturn ()),
               \<lambda>db. nbind (prepare db ''SELECT * FROM users'') (\<lambda>stmt. nreturn ())])
        (world_of []))) = [Opened, Used, Used, Closed]
   \<and> journal (snd (run_scoped (SqlClient_make refusing_driver)
        (\<lambda>db. []) (world_of []))) = []"
proof -
  have a: "newSqlite broken_driver '':memory:'' = Inr []"
    by (simp add: broken_driver_def)
  have b: "newSqlite sample_driver '':memory:'' = Inr [] \<and> methods sample_driver = sample_db"
    by (simp add: sample_driver_def)
  have c: "newSqlite refusing_driver '':memory:'' = Inl ''SqliteError: unable to open database file''"
    by (simp add: refusing_driver_def)
  have j: "journal (world_of []) = []"
    by (simp add: world_of_def)
  have t1: "journal (snd (run_scoped (SqlClient_make broken_driver) (\<lambda>db. []) (world_of []))) = [Opened, Closed]"
    using release_once_when_scope_ends [of broken_driver "world_of []" "\<lambda>db. []"]
    by (simp add: a j broken_driver_prepare)
  have t2: "journal (snd (run_scoped (SqlClient_make_plain sample_driver)
        (\<lambda>db. [\<lambda>db. nbind (prepare db ''SELECT * FROM users'') (\<lambda>stmt. nreturn ()),
               \<lambda>db. nbind (prepare db ''SELEKT'') (\<lambda>stmt. nreturn ()),
               \<lambda>db. nbind (prepare db ''SELECT * FROM users'') (\<lambda>stmt. nreturn ())])
        (world_of []))) = [Opened, Used, Used, Closed]"
    using conjunct2 [OF conjunct2 [OF conjunct2 [OF release_once_when_scope_ends [of sample_driver "world_of []"
        "\<lambda>db. [\<lambda>db. nbind (prepare db ''SELECT * FROM users'') (\<lambda>stmt. nreturn ()),
               \<lambda>db. nbind (prepare db ''SELEKT'') (\<lambda>stmt. nreturn ()),
               \<lambda>db. nbind (prepare db ''SELECT * FROM users'') (\<lambda>stmt. nreturn ())]"]]]]
    by (simp add: b j nbind_def nreturn_def prepare_select prepare_unknown)
  have t3: "journal (snd (run_scoped (SqlClient_make refusing_driver) (\<lambda>db. []) (world_of []))) = []"
    using release_once_when_scope_ends [of refusing_driver "world_of []" "\<lambda>db. []"]
    by (simp add: c j)
  show ?thesis
    using t1 t2 t3 by simp
qed

end
